theory Spec2Isabelle
  imports Complex_Main "HOL-Library.Multiset"
begin

section \<open>Pattern-yarn matching: the scoring and ranking code of the planner\<close>

text \<open>
  The development embeds \<^verbatim>\<open>slice10_yarn_match.py\<close> (weight normalisation, the five
  criteria of \<^verbatim>\<open>calculate_match_score\<close>, the ranking of \<^verbatim>\<open>match_yarn_to_pattern\<close>)
  and the temperature part of \<^verbatim>\<open>pattern_planner_app.py\<close> (comfort range, temperature
  score, the blended score of the recommendation loop).

  Conventions of the embedding.
  \<^item> Python floats are rationals: finite values, exact arithmetic. Rounding and the IEEE
    specials that \<^verbatim>\<open>float\<close> may read from text (\<^verbatim>\<open>inf\<close>, \<^verbatim>\<open>nan\<close>) are outside the
    model; the empty spreadsheet cell, which pandas reads as NaN, is inside it.
  \<^item> Strings are ASCII: \<^verbatim>\<open>lower\<close> acts on \<^verbatim>\<open>A\<close>..\<^verbatim>\<open>Z\<close>, \<^verbatim>\<open>strip\<close> removes the ASCII
    white space of Python's \<^verbatim>\<open>str.isspace\<close>.
  \<^item> Exceptions are values of \<open>error + 'a\<close>.
\<close>

subsection \<open>Strings\<close>

definition lower_char :: "char \<Rightarrow> char" where
  "lower_char c =
     (let n = (of_char c :: nat) in if 65 \<le> n \<and> n \<le> 90 then char_of (n + 32) else c)"

definition lower :: "string \<Rightarrow> string" where
  "lower s = map lower_char s"

definition isspace :: "char \<Rightarrow> bool" where
  "isspace c = (let n = (of_char c :: nat) in (9 \<le> n \<and> n \<le> 13) \<or> (28 \<le> n \<and> n \<le> 32))"

definition strip :: "string \<Rightarrow> string" where
  "strip s = rev (dropWhile isspace (rev (dropWhile isspace s)))"

text \<open>\<open>startswith s p\<close> is \<^verbatim>\<open>s.startswith(p)\<close>; \<open>contains sub s\<close> is \<^verbatim>\<open>sub in s\<close>.\<close>

fun startswith :: "string \<Rightarrow> string \<Rightarrow> bool" where
  "startswith s [] = True"
| "startswith [] (p # ps) = False"
| "startswith (c # cs) (p # ps) = (c = p \<and> startswith cs ps)"

fun contains :: "string \<Rightarrow> string \<Rightarrow> bool" where
  "contains sub [] = (sub = [])"
| "contains sub (c # cs) = (startswith (c # cs) sub \<or> contains sub cs)"

subsection \<open>Weight normalisation (\<^verbatim>\<open>normalize_yarn_weight\<close>)\<close>

text \<open>
  A weight cell is \<open>None\<close> when \<^verbatim>\<open>pd.isna\<close> holds of it and \<open>Some s\<close> when it is the
  text \<open>s\<close>. The dictionary \<^verbatim>\<open>weight_map\<close> is iterated in insertion order, so it is an
  association list; the first key contained in the cleaned text decides.
\<close>

definition weight_map :: "(string \<times> string) list" where
  "weight_map =
     [(''light'', ''sport''),
      (''light/sport'', ''sport''),
      (''dk'', ''DK''),
      (''medium'', ''worsted''),
      (''aran'', ''worsted''),
      (''heavy'', ''bulky''),
      (''super bulky'', ''super bulky''),
      (''jumbo'', ''super bulky'')]"

fun first_key :: "(string \<times> string) list \<Rightarrow> string \<Rightarrow> string option" where
  "first_key [] w = None"
| "first_key ((key, val) # kvs) w = (if contains key w then Some val else first_key kvs w)"

definition normalize_yarn_weight :: "string option \<Rightarrow> string option" where
  "normalize_yarn_weight weight =
     (case weight of
        None \<Rightarrow> None
      | Some s \<Rightarrow>
          (let w = strip (lower s) in
           case first_key weight_map w of Some val \<Rightarrow> Some val | None \<Rightarrow> Some w))"

subsection \<open>Rows, cells and exceptions\<close>

text \<open>
  \<open>KeyError\<close> and \<open>IndexError\<close> are the exceptions the code can raise. \<open>NotFound\<close> is the
  lookup-miss signal that the specification of the ranking names; it is part of the type so
  that a result can be compared with it.
\<close>

datatype error = KeyError | IndexError | NotFound

text \<open>
  A float of a numeric column: NaN (the empty cell) or a finite number. Comparisons with NaN
  are false, sums with NaN are NaN.
\<close>

datatype num = NaN | Num rat

fun num_add :: "num \<Rightarrow> num \<Rightarrow> num" where
  "num_add (Num a) (Num b) = Num (a + b)"
| "num_add _ _ = NaN"

fun num_gt :: "num \<Rightarrow> rat \<Rightarrow> bool" where
  "num_gt (Num a) b = (a > b)"
| "num_gt NaN b = False"

text \<open>
  A cell of a column that the code converts with \<^verbatim>\<open>float\<close> (hook sizes, rating, price):
  missing (\<^verbatim>\<open>pd.isna\<close>), a number, or text.
\<close>

datatype cell = Missing | Number rat | Text string

fun notna :: "cell \<Rightarrow> bool" where
  "notna Missing = False"
| "notna _ = True"

text \<open>
  \<^verbatim>\<open>str(x).strip()\<close>. For a number this is its repr, which is not empty, has no white space
  and is read back by \<^verbatim>\<open>float\<close> as the same number: the model keeps the number in place of
  its digits.
\<close>

datatype cleaned = Repr rat | Chars string

fun str_strip :: "cell \<Rightarrow> cleaned" where
  "str_strip (Number r) = Repr r"
| "str_strip (Text s) = Chars (strip s)"
| "str_strip Missing = Chars ''nan''"

fun truthy :: "cleaned \<Rightarrow> bool" where
  "truthy (Repr r) = True"
| "truthy (Chars s) = (s \<noteq> [])"

text \<open>
  \<^verbatim>\<open>float\<close> on text is the library's reader, a parameter \<open>fl\<close> of the model: \<open>fl s = None\<close>
  when \<^verbatim>\<open>float(s)\<close> raises \<^verbatim>\<open>ValueError\<close>. The empty string always raises.
\<close>

fun float :: "(string \<Rightarrow> rat option) \<Rightarrow> cleaned \<Rightarrow> rat option" where
  "float fl (Repr r) = Some r"
| "float fl (Chars s) = (if s = [] then None else fl s)"

fun float_cell :: "(string \<Rightarrow> rat option) \<Rightarrow> cell \<Rightarrow> rat option" where
  "float_cell fl (Number r) = Some r"
| "float_cell fl (Text s) = float fl (Chars s)"
| "float_cell fl Missing = None"

text \<open>\<^verbatim>\<open>str(x)\<close> of a text cell; the missing cell prints as \<^verbatim>\<open>nan\<close>.\<close>

fun str_text :: "string option \<Rightarrow> string" where
  "str_text None = ''nan''"
| "str_text (Some s) = s"

text \<open>
  The rows. A fibre column is \<open>None\<close> when the row has no such column: \<^verbatim>\<open>row[k]\<close> then
  raises \<^verbatim>\<open>KeyError\<close> and \<^verbatim>\<open>row.get(k, 0)\<close> gives 0.
\<close>

record pattern_row =
  Pattern_Name :: string
  Yarn_Weight :: "string option"
  Hook_Size :: cell
  Recommended_Composition :: "string option"

record yarn_row =
  Name_of_the_product :: string
  Price :: cell
  Rating :: cell
  Yarn_thikness :: "string option"
  Needle_Hook_Size :: cell
  Cotton :: "num option"
  Linen :: "num option"
  Bamboo_Viscouse :: "num option"
  Acrylic :: "num option"
  Wool :: "num option"
  Mohair_Alpaca :: "num option"

fun getitem :: "num option \<Rightarrow> error + num" where
  "getitem None = Inl KeyError"
| "getitem (Some v) = Inr v"

fun get :: "num option \<Rightarrow> rat \<Rightarrow> num" where
  "get None d = Num d"
| "get (Some v) d = v"

subsection \<open>The five criteria of \<^verbatim>\<open>calculate_match_score\<close>\<close>

text \<open>1. Yarn weight (30 points).\<close>

definition compatible :: "(string \<times> string list) list" where
  "compatible =
     [(''sport'', [''DK'']),
      (''DK'', [''sport'', ''worsted'']),
      (''worsted'', [''DK'', ''bulky'']),
      (''bulky'', [''worsted'', ''super bulky''])]"

text \<open>
  \<^verbatim>\<open>if pattern_weight and yarn_weight\<close>: both are neither \<^verbatim>\<open>None\<close> nor the empty string.
\<close>

definition weight_score :: "pattern_row \<Rightarrow> yarn_row \<Rightarrow> rat" where
  "weight_score pattern_row yarn_row =
     (let pattern_weight = normalize_yarn_weight (Yarn_Weight pattern_row);
          yarn_weight = normalize_yarn_weight (Yarn_thikness yarn_row)
      in case (pattern_weight, yarn_weight) of
           (Some pw, Some yw) \<Rightarrow>
             if pw \<noteq> [] \<and> yw \<noteq> [] then
               (if contains (lower pw) (lower yw) \<or> contains (lower yw) (lower pw) then 30
                else (case map_of compatible pw of
                        Some ws \<Rightarrow> if yw \<in> set ws then 15 else 0
                      | None \<Rightarrow> 0))
             else 0
         | _ \<Rightarrow> 0)"

text \<open>2. Hook size (20 points). A \<^verbatim>\<open>ValueError\<close> of either conversion is caught.\<close>

definition hook_score :: "(string \<Rightarrow> rat option) \<Rightarrow> pattern_row \<Rightarrow> yarn_row \<Rightarrow> rat" where
  "hook_score fl pattern_row yarn_row =
     (let pattern_hook = Hook_Size pattern_row;
          yarn_hook = Needle_Hook_Size yarn_row
      in if notna pattern_hook \<and> notna yarn_hook then
           (let pattern_hook_clean = str_strip pattern_hook;
                yarn_hook_clean = str_strip yarn_hook
            in if truthy pattern_hook_clean \<and> truthy yarn_hook_clean
                  \<and> pattern_hook_clean \<noteq> Chars '' '' then
                 (case (float fl pattern_hook_clean, float fl yarn_hook_clean) of
                    (Some a, Some b) \<Rightarrow>
                      (let hook_diff = \<bar>a - b\<bar>
                       in if hook_diff = 0 then 20
                          else if hook_diff \<le> 1 / 2 then 15
                          else if hook_diff \<le> 1 then 10
                          else 0)
                  | _ \<Rightarrow> 0)
               else 0)
         else 0)"

text \<open>
  3. Composition (20 points). \<open>keyword_and_over\<close> is one test
  \<^verbatim>\<open>'cotton' in composition_text and yarn_row['Cotton (%)'] > 50\<close>: the column is read only
  when the keyword is in the text.
\<close>

definition keyword_and_over :: "string \<Rightarrow> string \<Rightarrow> num option \<Rightarrow> error + bool" where
  "keyword_and_over keyword composition_text column =
     (if contains keyword composition_text then
        (case getitem column of Inl e \<Rightarrow> Inl e | Inr v \<Rightarrow> Inr (num_gt v 50))
      else Inr False)"

definition composition_score :: "pattern_row \<Rightarrow> yarn_row \<Rightarrow> error + rat" where
  "composition_score pattern_row yarn_row =
     (let composition_text = lower (str_text (Recommended_Composition pattern_row))
      in case keyword_and_over ''cotton'' composition_text (Cotton yarn_row) of
           Inl e \<Rightarrow> Inl e
         | Inr True \<Rightarrow> Inr 20
         | Inr False \<Rightarrow>
      (case keyword_and_over ''acrylic'' composition_text (Acrylic yarn_row) of
           Inl e \<Rightarrow> Inl e
         | Inr True \<Rightarrow> Inr 20
         | Inr False \<Rightarrow>
      (case keyword_and_over ''wool'' composition_text (Wool yarn_row) of
           Inl e \<Rightarrow> Inl e
         | Inr True \<Rightarrow> Inr 20
         | Inr False \<Rightarrow>
             if contains ''not specified'' composition_text then Inr 10 else Inr 0)))"

text \<open>4. Rating (15 points): no clamp; 7.5 when the conversion raises.\<close>

definition rating_score :: "(string \<Rightarrow> rat option) \<Rightarrow> yarn_row \<Rightarrow> rat" where
  "rating_score fl yarn_row =
     (let rating = Rating yarn_row
      in if notna rating then
           (case float_cell fl rating of
              Some r \<Rightarrow> (r / 5) * 15
            | None \<Rightarrow> 15 / 2)
         else 0)"

text \<open>5. Price (15 points), lower is better.\<close>

definition price_score :: "(string \<Rightarrow> rat option) \<Rightarrow> yarn_row \<Rightarrow> rat" where
  "price_score fl yarn_row =
     (let price = Price yarn_row
      in if notna price then
           (case float_cell fl price of
              Some price \<Rightarrow>
                if price < 3 then 15
                else if price < 5 then 10
                else if price < 8 then 5
                else 0
            | None \<Rightarrow> 15 / 2)
         else 0)"

text \<open>The sum as a percentage of the accumulated maximum.\<close>

definition calculate_match_score ::
  "(string \<Rightarrow> rat option) \<Rightarrow> pattern_row \<Rightarrow> yarn_row \<Rightarrow> error + rat" where
  "calculate_match_score fl pattern_row yarn_row =
     (let max_score = (0 + 30 + 20 + 20 + 15 + 15 :: rat)
      in case composition_score pattern_row yarn_row of
           Inl e \<Rightarrow> Inl e
         | Inr composition \<Rightarrow>
             (let score = 0 + weight_score pattern_row yarn_row
                            + hook_score fl pattern_row yarn_row
                            + composition
                            + rating_score fl yarn_row
                            + price_score fl yarn_row
              in if max_score > 0 then Inr ((score / max_score) * 100) else Inr 0))"

subsection \<open>Ranking (\<^verbatim>\<open>match_yarn_to_pattern\<close>)\<close>

text \<open>One dictionary of the list \<^verbatim>\<open>scores\<close>.\<close>

record score_row =
  yarn_name :: string
  score :: rat
  price :: cell
  rating :: cell
  yarn_weight :: "string option"
  hook_size :: cell
  cotton :: num
  acrylic :: num
  wool :: num

definition score_entry ::
  "(string \<Rightarrow> rat option) \<Rightarrow> pattern_row \<Rightarrow> yarn_row \<Rightarrow> error + score_row" where
  "score_entry fl pattern_row yarn_row =
     (case calculate_match_score fl pattern_row yarn_row of
        Inl e \<Rightarrow> Inl e
      | Inr s \<Rightarrow>
     (case getitem (Cotton yarn_row) of
        Inl e \<Rightarrow> Inl e
      | Inr c \<Rightarrow>
     (case getitem (Acrylic yarn_row) of
        Inl e \<Rightarrow> Inl e
      | Inr a \<Rightarrow>
     (case getitem (Wool yarn_row) of
        Inl e \<Rightarrow> Inl e
      | Inr w \<Rightarrow>
          Inr \<lparr>yarn_name = Name_of_the_product yarn_row,
               score = s,
               price = Price yarn_row,
               rating = Rating yarn_row,
               yarn_weight = Yarn_thikness yarn_row,
               hook_size = Needle_Hook_Size yarn_row,
               cotton = c,
               acrylic = a,
               wool = w\<rparr>))))"

text \<open>The loop over \<^verbatim>\<open>yarn_df.iterrows()\<close>: the first exception ends it.\<close>

fun score_all ::
  "(string \<Rightarrow> rat option) \<Rightarrow> pattern_row \<Rightarrow> yarn_row list \<Rightarrow> error + score_row list" where
  "score_all fl pattern_row [] = Inr []"
| "score_all fl pattern_row (yarn_row # yarn_df) =
     (case score_entry fl pattern_row yarn_row of
        Inl e \<Rightarrow> Inl e
      | Inr s \<Rightarrow>
          (case score_all fl pattern_row yarn_df of
             Inl e \<Rightarrow> Inl e
           | Inr scores \<Rightarrow> Inr (s # scores)))"

text \<open>
  \<^verbatim>\<open>DataFrame(rows).sort_values(key, ascending=False)\<close>. A frame built from the empty list
  has no columns, so the lookup of the sort column raises \<^verbatim>\<open>KeyError\<close>. Otherwise pandas
  hands the keys to the library's sorting routine (by default \<^verbatim>\<open>quicksort\<close>, which is not
  a stable sort) and takes the rows in the order of the positions it returns. The routine is
  the parameter \<open>srt\<close>: for the keys it returns their positions in non-increasing key order.
\<close>

definition sort_values :: "(rat list \<Rightarrow> nat list) \<Rightarrow> ('a \<Rightarrow> rat) \<Rightarrow> 'a list \<Rightarrow> error + 'a list" where
  "sort_values srt key rows =
     (if rows = [] then Inl KeyError
      else Inr (map (\<lambda>i. rows ! i) (srt (map key rows))))"

text \<open>What is known of the sorting routine: it returns a permutation of the positions that
  puts the keys in non-increasing order. Nothing is known of the order of equal keys.\<close>

definition sorts_descending :: "(rat list \<Rightarrow> nat list) \<Rightarrow> bool" where
  "sorts_descending srt =
     (\<forall>ks. mset (srt ks) = mset [0..<length ks]
         \<and> sorted_wrt (\<lambda>a b. a \<ge> b) (map (\<lambda>i. ks ! i) (srt ks)))"

text \<open>One such routine, the insertion sort of the positions by negated key.\<close>

definition insertion_argsort :: "rat list \<Rightarrow> nat list" where
  "insertion_argsort ks = sort_key (\<lambda>i. - (ks ! i)) [0..<length ks]"


text \<open>
  \<^verbatim>\<open>DataFrame.head(n)\<close>: the first \<open>n\<close> rows; for negative \<open>n\<close> all rows but the last
  \<open>-n\<close>.
\<close>

definition head :: "int \<Rightarrow> 'a list \<Rightarrow> 'a list" where
  "head n rows =
     (if 0 \<le> n then take (nat n) rows else take (length rows - nat (- n)) rows)"

text \<open>
  \<open>top_n\<close> is \<open>None\<close> when the caller does not supply it; the default of the signature is 5.
  \<^verbatim>\<open>.iloc[0]\<close> of an empty selection raises \<^verbatim>\<open>IndexError\<close>.
\<close>

definition match_yarn_to_pattern ::
  "(string \<Rightarrow> rat option) \<Rightarrow> (rat list \<Rightarrow> nat list) \<Rightarrow> string \<Rightarrow> pattern_row list
     \<Rightarrow> yarn_row list \<Rightarrow> int option \<Rightarrow> error + (pattern_row \<times> score_row list)" where
  "match_yarn_to_pattern fl srt pattern_name patterns_df yarn_df top_n_arg =
     (let top_n = (case top_n_arg of None \<Rightarrow> 5 | Some n \<Rightarrow> n)
      in case filter (\<lambda>p. Pattern_Name p = pattern_name) patterns_df of
           [] \<Rightarrow> Inl IndexError
         | pattern_row # _ \<Rightarrow>
             (case score_all fl pattern_row yarn_df of
                Inl e \<Rightarrow> Inl e
              | Inr scores \<Rightarrow>
                  (case sort_values srt score scores of
                     Inl e \<Rightarrow> Inl e
                   | Inr scores_df \<Rightarrow> Inr (pattern_row, head top_n scores_df))))"

subsection \<open>Temperature (\<^verbatim>\<open>pattern_planner_app.py\<close>)\<close>

record temp_range =
  min_temp :: rat
  max_temp :: rat
  ideal_temp :: rat
  type_label :: string

definition get_yarn_temp_range :: "yarn_row \<Rightarrow> temp_range" where
  "get_yarn_temp_range yarn_row =
     (let cotton = get (Cotton yarn_row) 0;
          linen = get (Linen yarn_row) 0;
          bamboo = get (Bamboo_Viscouse yarn_row) 0;
          acrylic = get (Acrylic yarn_row) 0;
          wool = get (Wool yarn_row) 0;
          mohair = get (Mohair_Alpaca yarn_row) 0;
          cool_fiber_pct = num_add (num_add cotton linen) bamboo;
          warm_fiber_pct = num_add wool mohair
      in if num_gt warm_fiber_pct 50 then
           \<lparr>min_temp = -10, max_temp = 15, ideal_temp = 5, type_label = ''Warm (Wool/Alpaca)''\<rparr>
         else if num_gt cool_fiber_pct 50 then
           \<lparr>min_temp = 15, max_temp = 35, ideal_temp = 22, type_label = ''Cool (Cotton/Linen)''\<rparr>
         else if num_gt acrylic 70 then
           \<lparr>min_temp = 5, max_temp = 20, ideal_temp = 12, type_label = ''All-season (Acrylic)''\<rparr>
         else
           \<lparr>min_temp = 5, max_temp = 25, ideal_temp = 15, type_label = ''Blend''\<rparr>)"

definition calculate_temp_match_score :: "temp_range \<Rightarrow> rat \<Rightarrow> rat" where
  "calculate_temp_match_score yarn_temp_range current_temp =
     (let yarn_min = min_temp yarn_temp_range;
          yarn_max = max_temp yarn_temp_range;
          yarn_ideal = ideal_temp yarn_temp_range
      in if yarn_min \<le> current_temp \<and> current_temp \<le> yarn_max then
           (let distance_from_ideal = \<bar>current_temp - yarn_ideal\<bar>;
                score = 30 - (distance_from_ideal * (3 / 2))
            in max 0 score)
         else
           (let distance = (if current_temp < yarn_min then yarn_min - current_temp
                            else current_temp - yarn_max);
                score = 30 - (distance * 3)
            in max 0 score))"

text \<open>One dictionary of the list \<^verbatim>\<open>yarn_matches\<close> of the recommendation loop.\<close>

record yarn_match =
  name :: string
  total_score :: rat
  base_score :: rat
  temp_score :: rat
  match_price :: cell
  match_rating :: cell
  match_temp_range :: temp_range
  match_cotton :: num
  match_acrylic :: num
  match_wool :: num
  weight :: "string option"

definition yarn_match_entry ::
  "(string \<Rightarrow> rat option) \<Rightarrow> pattern_row \<Rightarrow> rat \<Rightarrow> yarn_row \<Rightarrow> error + yarn_match" where
  "yarn_match_entry fl selected_pattern current_temp yarn_row =
     (case calculate_match_score fl selected_pattern yarn_row of
        Inl e \<Rightarrow> Inl e
      | Inr base \<Rightarrow>
          (let yarn_temp_range = get_yarn_temp_range yarn_row;
               temp = calculate_temp_match_score yarn_temp_range current_temp;
               total = (base * (7 / 10)) + temp
           in Inr \<lparr>name = Name_of_the_product yarn_row,
                    total_score = total,
                    base_score = base,
                    temp_score = temp,
                    match_price = Price yarn_row,
                    match_rating = Rating yarn_row,
                    match_temp_range = yarn_temp_range,
                    match_cotton = get (Cotton yarn_row) 0,
                    match_acrylic = get (Acrylic yarn_row) 0,
                    match_wool = get (Wool yarn_row) 0,
                    weight = Yarn_thikness yarn_row\<rparr>))"

fun yarn_matches ::
  "(string \<Rightarrow> rat option) \<Rightarrow> pattern_row \<Rightarrow> rat \<Rightarrow> yarn_row list \<Rightarrow> error + yarn_match list" where
  "yarn_matches fl selected_pattern current_temp [] = Inr []"
| "yarn_matches fl selected_pattern current_temp (yarn_row # yarn_df) =
     (case yarn_match_entry fl selected_pattern current_temp yarn_row of
        Inl e \<Rightarrow> Inl e
      | Inr m \<Rightarrow>
          (case yarn_matches fl selected_pattern current_temp yarn_df of
             Inl e \<Rightarrow> Inl e
           | Inr ms \<Rightarrow> Inr (m # ms)))"

text \<open>\<^verbatim>\<open>pd.DataFrame(yarn_matches).sort_values('score', ascending=False).head(3)\<close>.\<close>

definition yarn_matches_df ::
  "(string \<Rightarrow> rat option) \<Rightarrow> (rat list \<Rightarrow> nat list) \<Rightarrow> pattern_row \<Rightarrow> rat \<Rightarrow> yarn_row list
     \<Rightarrow> error + yarn_match list" where
  "yarn_matches_df fl srt selected_pattern current_temp yarn_df =
     (case yarn_matches fl selected_pattern current_temp yarn_df of
        Inl e \<Rightarrow> Inl e
      | Inr ms \<Rightarrow>
          (case sort_values srt total_score ms of
             Inl e \<Rightarrow> Inl e
           | Inr sorted_ms \<Rightarrow> Inr (head 3 sorted_ms)))"

text \<open>A reader of plain decimal digits, for concrete evaluations: \<^verbatim>\<open>float\<close> on an unsigned
  whole number; every other text is rejected.\<close>

fun digit_value :: "char \<Rightarrow> nat option" where
  "digit_value c =
     (let n = (of_char c :: nat) in if 48 \<le> n \<and> n \<le> 57 then Some (n - 48) else None)"

fun read_digits :: "nat \<Rightarrow> string \<Rightarrow> nat option" where
  "read_digits acc [] = Some acc"
| "read_digits acc (c # cs) =
     (case digit_value c of None \<Rightarrow> None | Some d \<Rightarrow> read_digits (10 * acc + d) cs)"

definition float_digits :: "string \<Rightarrow> rat option" where
  "float_digits s =
     (if s = [] then None
      else case read_digits 0 s of None \<Rightarrow> None | Some n \<Rightarrow> Some (of_nat n))"

subsection \<open>Rows for concrete evaluations\<close>

text \<open>A pattern and yarns of the kind the spreadsheets hold.\<close>

definition example_pattern :: pattern_row where
  "example_pattern =
     \<lparr>Pattern_Name = ''CIRCLE CUSHION'',
      Yarn_Weight = Some ''worsted'',
      Hook_Size = Number 5,
      Recommended_Composition = Some ''cotton''\<rparr>"

definition example_yarn :: yarn_row where
  "example_yarn =
     \<lparr>Name_of_the_product = ''Cotton Soft'',
      Price = Number (5 / 2),
      Rating = Number (9 / 2),
      Yarn_thikness = Some ''Worsted'',
      Needle_Hook_Size = Number 5,
      Cotton = Some (Num 80),
      Linen = Some (Num 0),
      Bamboo_Viscouse = Some (Num 0),
      Acrylic = Some (Num 20),
      Wool = Some (Num 0),
      Mohair_Alpaca = Some (Num 0)\<rparr>"

definition wool_yarn :: yarn_row where
  "wool_yarn =
     example_yarn\<lparr>Name_of_the_product := ''Highland Wool'',
                  Cotton := Some (Num 0), Acrylic := Some (Num 20),
                  Wool := Some (Num 70), Mohair_Alpaca := Some (Num 10)\<rparr>"

definition blank_fibre_yarn :: yarn_row where
  "blank_fibre_yarn =
     example_yarn\<lparr>Cotton := Some NaN, Linen := Some NaN, Bamboo_Viscouse := None,
                  Acrylic := Some NaN, Wool := None, Mohair_Alpaca := Some NaN\<rparr>"

definition acrylic_yarn :: yarn_row where
  "acrylic_yarn =
     example_yarn\<lparr>Name_of_the_product := ''Acrylic Basic'',
                  Cotton := Some (Num 0), Acrylic := Some (Num 100)\<rparr>"



definition mohair_blend_yarn :: yarn_row where
  "mohair_blend_yarn =
     example_yarn\<lparr>Name_of_the_product := ''Mohair Mix'',
                  Cotton := Some (Num 20), Acrylic := Some (Num 25),
                  Wool := Some (Num 30), Mohair_Alpaca := Some (Num 25)\<rparr>"

definition summer_blend_yarn :: yarn_row where
  "summer_blend_yarn =
     example_yarn\<lparr>Name_of_the_product := ''Summer Mix'',
                  Cotton := Some (Num 20), Linen := Some (Num 20),
                  Bamboo_Viscouse := Some (Num 15), Acrylic := Some (Num 45),
                  Wool := None, Mohair_Alpaca := None\<rparr>"

definition threshold_yarn :: yarn_row where
  "threshold_yarn =
     example_yarn\<lparr>Name_of_the_product := ''Half and Half'',
                  Cotton := Some (Num 25), Linen := Some (Num 25), Bamboo_Viscouse := None,
                  Acrylic := Some (Num 70), Wool := Some (Num 25),
                  Mohair_Alpaca := Some (Num 25)\<rparr>"

subsection \<open>Facts about the string functions\<close>

lemma lower_char_idem: "lower_char (lower_char c) = lower_char c"
  by (simp add: lower_char_def Let_def)

lemma lower_idem: "lower (lower s) = lower s"
  by (simp add: lower_def lower_char_idem)

lemma isspace_lower_char: "isspace (lower_char c) = isspace c"
  by (auto simp add: isspace_def lower_char_def Let_def)

lemma lower_dropWhile_isspace:
  "lower (dropWhile isspace s) = dropWhile isspace (lower s)"
  by (induction s) (simp_all add: lower_def isspace_lower_char)

lemma lower_rev: "lower (rev s) = rev (lower s)"
  by (simp add: lower_def rev_map)

lemma lower_strip: "lower (strip s) = strip (lower s)"
  by (simp add: strip_def lower_rev lower_dropWhile_isspace)

lemma dropWhile_fixed: "xs = [] \<or> \<not> P (hd xs) \<Longrightarrow> dropWhile P xs = xs"
  by (cases xs) auto

lemma dropWhile_head: "dropWhile P xs = [] \<or> \<not> P (hd (dropWhile P xs))"
  by (metis hd_dropWhile)

lemma rstrip_head:
  assumes "xs = [] \<or> \<not> P (hd xs)"
  shows "rev (dropWhile P (rev xs)) = [] \<or> \<not> P (hd (rev (dropWhile P (rev xs))))"
proof -
  let ?b = "rev (dropWhile P (rev xs))"
  have "rev (takeWhile P (rev xs) @ dropWhile P (rev xs)) = xs"
    by (simp only: takeWhile_dropWhile_id rev_rev_ident)
  then have split: "xs = ?b @ rev (takeWhile P (rev xs))"
    by (simp only: rev_append)
  show ?thesis
  proof (cases ?b)
    case Nil
    then show ?thesis by simp
  next
    case (Cons y ys)
    with split have "hd xs = hd ?b" by (metis hd_append2 list.distinct(1))
    moreover have "xs \<noteq> []" using Cons split by auto
    ultimately show ?thesis using assms by simp
  qed
qed

lemma strip_idem: "strip (strip s) = strip s"
proof -
  let ?a = "dropWhile isspace s"
  let ?b = "rev (dropWhile isspace (rev ?a))"
  have "?b = [] \<or> \<not> isspace (hd ?b)"
    by (rule rstrip_head) (rule dropWhile_head)
  then have "dropWhile isspace ?b = ?b" by (rule dropWhile_fixed)
  then show ?thesis by (simp add: strip_def)
qed

lemma strip_lower_fixed: "strip (lower (strip (lower s))) = strip (lower s)"
  by (simp add: lower_strip lower_idem strip_idem)

lemma first_key_value: "first_key kvs w = Some val \<Longrightarrow> val \<in> snd ` set kvs"
  by (induction kvs w rule: first_key.induct) (auto split: if_splits)

lemma normalize_sport: "normalize_yarn_weight (Some ''sport'') = Some ''sport''"
  by code_simp

lemma normalize_DK: "normalize_yarn_weight (Some ''DK'') = Some ''DK''"
  by code_simp

lemma normalize_worsted: "normalize_yarn_weight (Some ''worsted'') = Some ''worsted''"
  by code_simp

lemma normalize_bulky: "normalize_yarn_weight (Some ''bulky'') = Some ''bulky''"
  by code_simp

lemma normalize_super_bulky:
  "normalize_yarn_weight (Some ''super bulky'') = Some ''super bulky''"
  by code_simp

lemma weight_map_values:
  "snd ` set weight_map = {''sport'', ''DK'', ''worsted'', ''bulky'', ''super bulky''}"
  unfolding weight_map_def by (simp add: insert_commute)

lemma normalize_values_fixed:
  assumes "first_key weight_map w = Some val"
  shows "normalize_yarn_weight (Some val) = Some val"
proof -
  have "val \<in> {''sport'', ''DK'', ''worsted'', ''bulky'', ''super bulky''}"
    using first_key_value [OF assms] by (simp only: weight_map_values)
  then show ?thesis
    using normalize_sport normalize_DK normalize_worsted normalize_bulky normalize_super_bulky
    by blast
qed

lemma strip_not_space: "strip s \<noteq> '' ''"
proof -
  have "strip s = [] \<or> \<not> isspace (hd (strip s))"
    unfolding strip_def by (rule rstrip_head) (rule dropWhile_head)
  moreover have "isspace (CHR '' '')" by code_simp
  ultimately show ?thesis by auto
qed

lemma str_strip_not_space: "notna c \<Longrightarrow> str_strip c \<noteq> Chars '' ''"
  by (cases c) (simp_all add: strip_not_space)

lemma float_truthy: "float fl c = Some a \<Longrightarrow> truthy c"
  by (cases c) (auto split: if_splits)

lemma range_ordered: "min_temp (get_yarn_temp_range y) \<le> max_temp (get_yarn_temp_range y)"
  by (simp add: get_yarn_temp_range_def Let_def)

lemma nearest_bound:
  fixes t :: rat
  assumes "lo \<le> hi" "\<not> (lo \<le> t \<and> t \<le> hi)"
  shows "(if t < lo then lo - t else t - hi) = min \<bar>t - lo\<bar> \<bar>t - hi\<bar>"
  using assms by (auto simp add: min_def abs_if)

lemma temp_score_formula:
  assumes "min_temp r \<le> max_temp r"
  shows "calculate_temp_match_score r t =
     (if min_temp r \<le> t \<and> t \<le> max_temp r
      then max 0 (30 - (3 / 2) * \<bar>t - ideal_temp r\<bar>)
      else max 0 (30 - 3 * min \<bar>t - min_temp r\<bar> \<bar>t - max_temp r\<bar>))"
proof (cases "min_temp r \<le> t \<and> t \<le> max_temp r")
  case True
  then show ?thesis by (simp add: calculate_temp_match_score_def Let_def mult.commute)
next
  case False
  have "calculate_temp_match_score r t =
      max 0 (30 - (if t < min_temp r then min_temp r - t else t - max_temp r) * 3)"
    by (simp only: calculate_temp_match_score_def Let_def False if_False)
  also have "\<dots> = max 0 (30 - min \<bar>t - min_temp r\<bar> \<bar>t - max_temp r\<bar> * 3)"
    by (simp only: nearest_bound [OF assms False])
  finally show ?thesis by (simp only: False if_False mult.commute)
qed

lemma yarn_match_entry_blend:
  assumes "yarn_match_entry fl p t y = Inr m"
  shows "calculate_match_score fl p y = Inr (base_score m)
       \<and> total_score m = (7 / 10) * base_score m + temp_score m
       \<and> temp_score m = calculate_temp_match_score (get_yarn_temp_range y) t"
  using assms by (auto simp add: yarn_match_entry_def Let_def split: sum.splits)

lemma yarn_matches_all2:
  "yarn_matches fl p t yarn_df = Inr ms \<Longrightarrow>
   list_all2 (\<lambda>y m. yarn_match_entry fl p t y = Inr m) yarn_df ms"
  by (induction yarn_df arbitrary: ms) (auto split: sum.splits)

lemma keyword_and_over_present:
  "column = Some v \<Longrightarrow>
   keyword_and_over keyword composition_text column =
     Inr (contains keyword composition_text \<and> num_gt v 50)"
  by (simp add: keyword_and_over_def)

lemma getitem_error: "getitem column = Inl e \<Longrightarrow> e = KeyError"
  by (cases column) simp_all

lemma keyword_and_over_error: "keyword_and_over k text column = Inl e \<Longrightarrow> e = KeyError"
  by (auto simp add: keyword_and_over_def split: if_splits sum.splits dest: getitem_error)

lemma composition_score_error: "composition_score p y = Inl e \<Longrightarrow> e = KeyError"
  unfolding composition_score_def Let_def
  by (auto split: sum.splits bool.splits if_splits dest: keyword_and_over_error)

lemma calculate_match_score_error: "calculate_match_score fl p y = Inl e \<Longrightarrow> e = KeyError"
  unfolding calculate_match_score_def Let_def
  by (auto split: sum.splits if_splits dest: composition_score_error)

lemma score_entry_error: "score_entry fl p y = Inl e \<Longrightarrow> e = KeyError"
  unfolding score_entry_def
  by (auto split: sum.splits dest: calculate_match_score_error getitem_error)

lemma score_all_error: "score_all fl p ys = Inl e \<Longrightarrow> e = KeyError"
  by (induction ys arbitrary: e) (auto split: sum.splits dest: score_entry_error)

lemma sort_values_error: "sort_values srt key rows = Inl e \<Longrightarrow> e = KeyError"
  by (auto simp add: sort_values_def split: if_splits)

lemma match_unknown:
  assumes "pattern_name \<notin> Pattern_Name ` set patterns_df"
  shows "match_yarn_to_pattern fl srt pattern_name patterns_df yarn_df top_n = Inl IndexError"
proof -
  have "filter (\<lambda>p. Pattern_Name p = pattern_name) patterns_df = []"
    using assms by (auto simp add: filter_empty_conv)
  then show ?thesis by (simp add: match_yarn_to_pattern_def)
qed

lemma match_known:
  assumes "pattern_name \<in> Pattern_Name ` set patterns_df"
  shows "match_yarn_to_pattern fl srt pattern_name patterns_df yarn_df top_n \<noteq> Inl IndexError"
proof -
  have "filter (\<lambda>p. Pattern_Name p = pattern_name) patterns_df \<noteq> []"
    using assms by (auto simp add: filter_empty_conv)
  then obtain p rest where f: "filter (\<lambda>p. Pattern_Name p = pattern_name) patterns_df = p # rest"
    by (cases "filter (\<lambda>p. Pattern_Name p = pattern_name) patterns_df") auto
  show ?thesis
  proof
    assume a: "match_yarn_to_pattern fl srt pattern_name patterns_df yarn_df top_n = Inl IndexError"
    show False
    proof (cases "score_all fl p yarn_df")
      case (Inl e)
      then have "e = KeyError" by (rule score_all_error)
      with a f Inl show False by (simp add: match_yarn_to_pattern_def)
    next
      case (Inr scores)
      show False
      proof (cases "sort_values srt score scores")
        case (Inl e)
        then have "e = KeyError" by (rule sort_values_error)
        with a f Inr Inl show False by (simp add: match_yarn_to_pattern_def)
      next
        case (Inr scores_df)
        with a f \<open>score_all fl p yarn_df = Inr scores\<close> show False
          by (simp add: match_yarn_to_pattern_def)
      qed
    qed
  qed
qed


lemma sort_values_ok:
  assumes "sorts_descending srt" and "rows \<noteq> []"
  shows "\<exists>out. sort_values srt key rows = Inr out \<and> mset out = mset rows
           \<and> sorted_wrt (\<lambda>a b. key a \<ge> key b) out"
proof -
  let ?ks = "map key rows"
  let ?idx = "srt ?ks"
  let ?out = "map (\<lambda>i. rows ! i) ?idx"
  have perm: "mset ?idx = mset [0..<length rows]"
    using assms(1) by (simp add: sorts_descending_def)
  have srt: "sorted_wrt (\<lambda>a b. a \<ge> b) (map (\<lambda>i. ?ks ! i) ?idx)"
    using assms(1) unfolding sorts_descending_def by blast
  have "set ?idx = set [0..<length rows]" using perm by (rule mset_eq_setD)
  then have inb: "\<forall>i \<in> set ?idx. i < length rows" by simp
  have "mset ?out = image_mset (\<lambda>i. rows ! i) (mset ?idx)" by simp
  also have "\<dots> = image_mset (\<lambda>i. rows ! i) (mset [0..<length rows])" by (simp only: perm)
  also have "\<dots> = mset (map (\<lambda>i. rows ! i) [0..<length rows])" by simp
  also have "\<dots> = mset rows" by (simp only: map_nth)
  finally have m: "mset ?out = mset rows" .
  have "map (\<lambda>i. ?ks ! i) ?idx = map key ?out"
    using inb by simp
  with srt have "sorted_wrt (\<lambda>a b. a \<ge> b) (map key ?out)" by simp
  then have s: "sorted_wrt (\<lambda>a b. key a \<ge> key b) ?out" by (simp only: sorted_wrt_map)
  have "sort_values srt key rows = Inr ?out" using assms(2) by (simp add: sort_values_def)
  with m s show ?thesis by blast
qed

lemma composition_score_total:
  assumes "Cotton y \<noteq> None" and "Acrylic y \<noteq> None" and "Wool y \<noteq> None"
  shows "\<exists>s. composition_score p y = Inr s"
proof -
  let ?text = "lower (str_text (Recommended_Composition p))"
  from assms obtain c a w where "Cotton y = Some c" "Acrylic y = Some a" "Wool y = Some w"
    by auto
  then obtain k1 k2 k3 where e: "keyword_and_over ''cotton'' ?text (Cotton y) = Inr k1"
    "keyword_and_over ''acrylic'' ?text (Acrylic y) = Inr k2"
    "keyword_and_over ''wool'' ?text (Wool y) = Inr k3"
    by (simp add: keyword_and_over_present)
  show ?thesis
    unfolding composition_score_def Let_def e
    by (cases k1; cases k2; cases k3; simp)
qed

lemma calculate_match_score_total:
  assumes "Cotton y \<noteq> None" and "Acrylic y \<noteq> None" and "Wool y \<noteq> None"
  shows "\<exists>s. calculate_match_score fl p y = Inr s"
proof -
  from composition_score_total [OF assms] obtain c where c: "composition_score p y = Inr c" ..
  have ex: "\<exists>s. (if b then Inr u else Inr v) = (Inr s :: error + rat)" for b u v
    by (cases b) simp_all
  show ?thesis
    unfolding calculate_match_score_def Let_def c sum.case by (rule ex)
qed




lemma length_head:
  "length (head n rows) =
     (if 0 \<le> n then min (nat n) (length rows) else length rows - nat (- n))"
  by (cases "0 \<le> n") (simp_all add: head_def)

lemma sorted_wrt_head: "sorted_wrt P rows \<Longrightarrow> sorted_wrt P (head n rows)"
  by (simp add: head_def sorted_wrt_take)



text \<open>
  The ranges of the criteria. The rating criterion stays within its 15 points only when the
  rating read from the cell lies on the scale from 0 to 5.
\<close>

lemma weight_score_range: "0 \<le> weight_score p y \<and> weight_score p y \<le> 30"
  by (simp add: weight_score_def Let_def split: option.splits)

lemma hook_score_range: "0 \<le> hook_score fl p y \<and> hook_score fl p y \<le> 20"
  by (simp add: hook_score_def Let_def split: option.splits)

lemma price_score_range: "0 \<le> price_score fl y \<and> price_score fl y \<le> 15"
  by (simp add: price_score_def Let_def split: option.splits)

lemma composition_score_range:
  "composition_score p y = Inr c \<Longrightarrow> 0 \<le> c \<and> c \<le> 20"
  unfolding composition_score_def Let_def
  by (auto split: sum.splits bool.splits if_splits)

lemma rating_score_range:
  assumes "\<forall>r. float_cell fl (Rating y) = Some r \<longrightarrow> 0 \<le> r \<and> r \<le> 5"
  shows "0 \<le> rating_score fl y \<and> rating_score fl y \<le> 15"
proof (cases "float_cell fl (Rating y)")
  case None
  then show ?thesis by (simp add: rating_score_def Let_def)
next
  case (Some r)
  with assms have "0 \<le> r" "r \<le> 5" by auto
  then show ?thesis using Some by (simp add: rating_score_def Let_def)
qed

lemma calculate_match_score_in_scale:
  assumes "calculate_match_score fl p y = Inr s"
    and "\<forall>r. float_cell fl (Rating y) = Some r \<longrightarrow> 0 \<le> r \<and> r \<le> 5"
  shows "0 \<le> s \<and> s \<le> 100"
proof -
  from assms(1) obtain c where c: "composition_score p y = Inr c"
    and s: "s = (0 + weight_score p y + hook_score fl p y + c + rating_score fl y
                 + price_score fl y) / (0 + 30 + 20 + 20 + 15 + 15) * 100"
    by (auto simp add: calculate_match_score_def Let_def split: sum.splits)
  note w = weight_score_range [of p y]
  note h = hook_score_range [of fl p y]
  note k = composition_score_range [OF c]
  note r = rating_score_range [OF assms(2)]
  note q = price_score_range [of fl y]
  from w h k r q show ?thesis unfolding s by simp
qed

text \<open>The recommendation loop: totality, and the three rows the page shows.\<close>

lemma yarn_matches_total:
  assumes "\<forall>y \<in> set yarn_df. Cotton y \<noteq> None \<and> Acrylic y \<noteq> None \<and> Wool y \<noteq> None"
  shows "\<exists>ms. yarn_matches fl p t yarn_df = Inr ms"
  using assms
proof (induction yarn_df)
  case Nil
  then show ?case by simp
next
  case (Cons y ys)
  then obtain ms where ms: "yarn_matches fl p t ys = Inr ms" by auto
  from Cons.prems calculate_match_score_total [of y fl p]
  obtain s where "calculate_match_score fl p y = Inr s" by auto
  then obtain m where "yarn_match_entry fl p t y = Inr m"
    by (simp add: yarn_match_entry_def Let_def)
  with ms show ?case by simp
qed

lemma yarn_matches_df_top_three:
  assumes "sorts_descending srt" and "yarn_matches_df fl srt p t yarn_df = Inr rs"
  shows "length rs \<le> 3 \<and> sorted_wrt (\<lambda>a b. total_score a \<ge> total_score b) rs"
proof -
  from assms(2) obtain ms out where ms: "yarn_matches fl p t yarn_df = Inr ms"
    and out: "sort_values srt total_score ms = Inr out" and rs: "rs = head 3 out"
    by (auto simp add: yarn_matches_df_def split: sum.splits)
  from out have "ms \<noteq> []" by (auto simp add: sort_values_def split: if_splits)
  from sort_values_ok [OF assms(1) this, of total_score] out
  have "sorted_wrt (\<lambda>a b. total_score a \<ge> total_score b) out" by auto
  then have "sorted_wrt (\<lambda>a b. total_score a \<ge> total_score b) rs"
    unfolding rs by (rule sorted_wrt_head)
  moreover have "length rs \<le> 3" unfolding rs by (simp add: length_head)
  ultimately show ?thesis by simp
qed





text \<open>
  The threshold tests of the comfort range in terms of the numbers: a sum is over the
  threshold exactly when every summand is a number (0 for a column the row lacks) and the
  sum of the numbers is over it.
\<close>

lemma column_cases:
  obtains (absent) "f = None" | (nan) "f = Some NaN" | (number) r where "f = Some (Num r)"
proof (cases f)
  case None
  then show ?thesis by (rule absent)
next
  case (Some v)
  then show ?thesis by (cases v) (auto intro: nan number)
qed

lemma num_gt_get:
  "num_gt (get f 0) k \<longleftrightarrow>
     (\<exists>x. (f = Some (Num x) \<or> (f = None \<and> x = 0)) \<and> x > k)"
  by (cases f rule: column_cases) auto

lemma num_gt_add2:
  "num_gt (num_add (get f 0) (get g 0)) k \<longleftrightarrow>
     (\<exists>x z. (f = Some (Num x) \<or> (f = None \<and> x = 0))
           \<and> (g = Some (Num z) \<or> (g = None \<and> z = 0)) \<and> x + z > k)"
  by (cases f rule: column_cases; cases g rule: column_cases) auto

lemma num_gt_add3:
  "num_gt (num_add (num_add (get f 0) (get g 0)) (get h 0)) k \<longleftrightarrow>
     (\<exists>x z u. (f = Some (Num x) \<or> (f = None \<and> x = 0))
           \<and> (g = Some (Num z) \<or> (g = None \<and> z = 0))
           \<and> (h = Some (Num u) \<or> (h = None \<and> u = 0)) \<and> x + z + u > k)"
  by (cases f rule: column_cases; cases g rule: column_cases; cases h rule: column_cases) auto

lemma get_yarn_temp_range_sums:
  "get_yarn_temp_range y =
     (if \<exists>w m. (Wool y = Some (Num w) \<or> (Wool y = None \<and> w = 0))
              \<and> (Mohair_Alpaca y = Some (Num m) \<or> (Mohair_Alpaca y = None \<and> m = 0))
              \<and> w + m > 50
      then \<lparr>min_temp = -10, max_temp = 15, ideal_temp = 5, type_label = ''Warm (Wool/Alpaca)''\<rparr>
      else if \<exists>c l b. (Cotton y = Some (Num c) \<or> (Cotton y = None \<and> c = 0))
              \<and> (Linen y = Some (Num l) \<or> (Linen y = None \<and> l = 0))
              \<and> (Bamboo_Viscouse y = Some (Num b) \<or> (Bamboo_Viscouse y = None \<and> b = 0))
              \<and> c + l + b > 50
      then \<lparr>min_temp = 15, max_temp = 35, ideal_temp = 22, type_label = ''Cool (Cotton/Linen)''\<rparr>
      else if \<exists>a. (Acrylic y = Some (Num a) \<or> (Acrylic y = None \<and> a = 0)) \<and> a > 70
      then \<lparr>min_temp = 5, max_temp = 20, ideal_temp = 12, type_label = ''All-season (Acrylic)''\<rparr>
      else \<lparr>min_temp = 5, max_temp = 25, ideal_temp = 15, type_label = ''Blend''\<rparr>)"
  unfolding get_yarn_temp_range_def Let_def
  by (simp only: num_gt_get num_gt_add2 num_gt_add3)

subsection \<open>Claims\<close>

text \<open>
  C9. The weight normaliser is idempotent on every input, the missing cell and arbitrary
  text included: normalising a normalised weight changes nothing.
\<close>

theorem C9_normalize_yarn_weight_idempotent:
  "normalize_yarn_weight (normalize_yarn_weight x) = normalize_yarn_weight x"
proof (cases x)
  case None
  then show ?thesis by (simp add: normalize_yarn_weight_def)
next
  case (Some s)
  let ?w = "strip (lower s)"
  show ?thesis
  proof (cases "first_key weight_map ?w")
    case None
    then have "normalize_yarn_weight x = Some ?w"
      using Some by (simp add: normalize_yarn_weight_def)
    moreover have "normalize_yarn_weight (Some ?w) = Some ?w"
      using None by (simp add: normalize_yarn_weight_def strip_lower_fixed)
    ultimately show ?thesis by simp
  next
    case (Some val)
    then have "normalize_yarn_weight x = Some val"
      using \<open>x = Some s\<close> by (simp add: normalize_yarn_weight_def)
    with normalize_values_fixed [OF Some] show ?thesis by simp
  qed
qed

text \<open>
  C7. The hook-size criterion. When both hook sizes are present and read as the numbers \<open>a\<close>
  and \<open>b\<close>, with \<open>d = \<bar>a - b\<bar>\<close>, the criterion scores 20 if \<open>d = 0\<close>, 15 if
  \<open>0 < d \<le> 0.5\<close>, 10 if \<open>0.5 < d \<le> 1\<close> and 0 otherwise, so a difference of 2 scores 0.
  When either value is missing or does not read as a number, the criterion scores 0. The
  criterion is a total function into the numbers: it raises nothing.
\<close>

theorem C7_hook_score:
  fixes fl :: "string \<Rightarrow> rat option"
  shows "(notna (Hook_Size p) \<and> notna (Needle_Hook_Size y)
            \<and> float fl (str_strip (Hook_Size p)) = Some a
            \<and> float fl (str_strip (Needle_Hook_Size y)) = Some b
          \<longrightarrow> (\<bar>a - b\<bar> = 0 \<longrightarrow> hook_score fl p y = 20)
            \<and> (0 < \<bar>a - b\<bar> \<and> \<bar>a - b\<bar> \<le> 1 / 2 \<longrightarrow> hook_score fl p y = 15)
            \<and> (1 / 2 < \<bar>a - b\<bar> \<and> \<bar>a - b\<bar> \<le> 1 \<longrightarrow> hook_score fl p y = 10)
            \<and> (1 < \<bar>a - b\<bar> \<longrightarrow> hook_score fl p y = 0)
            \<and> (\<bar>a - b\<bar> = 2 \<longrightarrow> hook_score fl p y = 0))
       \<and> (\<not> notna (Hook_Size p) \<or> \<not> notna (Needle_Hook_Size y)
            \<or> float fl (str_strip (Hook_Size p)) = None
            \<or> float fl (str_strip (Needle_Hook_Size y)) = None
          \<longrightarrow> hook_score fl p y = 0)"
proof (intro conjI impI)
  assume h: "notna (Hook_Size p) \<and> notna (Needle_Hook_Size y)
            \<and> float fl (str_strip (Hook_Size p)) = Some a
            \<and> float fl (str_strip (Needle_Hook_Size y)) = Some b"
  then have "truthy (str_strip (Hook_Size p))" "truthy (str_strip (Needle_Hook_Size y))"
    by (blast intro: float_truthy)+
  moreover have "str_strip (Hook_Size p) \<noteq> Chars '' ''"
    using h str_strip_not_space [of "Hook_Size p"] by simp
  ultimately have eq: "hook_score fl p y =
      (if \<bar>a - b\<bar> = 0 then 20 else if \<bar>a - b\<bar> \<le> 1 / 2 then 15
       else if \<bar>a - b\<bar> \<le> 1 then 10 else 0)"
    using h by (simp add: hook_score_def Let_def)
  define d where "d = \<bar>a - b\<bar>"
  have eqd: "hook_score fl p y =
      (if d = 0 then 20 else if d \<le> 1 / 2 then 15 else if d \<le> 1 then 10 else 0)"
    using eq by (simp only: d_def)
  have "d = 0 \<Longrightarrow> hook_score fl p y = 20" using eqd by simp
  then show "\<bar>a - b\<bar> = 0 \<Longrightarrow> hook_score fl p y = 20" by (simp only: d_def)
  have "0 < d \<and> d \<le> 1 / 2 \<Longrightarrow> hook_score fl p y = 15" using eqd by auto
  then show "0 < \<bar>a - b\<bar> \<and> \<bar>a - b\<bar> \<le> 1 / 2 \<Longrightarrow> hook_score fl p y = 15"
    by (simp only: d_def)
  have "1 / 2 < d \<and> d \<le> 1 \<Longrightarrow> hook_score fl p y = 10" using eqd by auto
  then show "1 / 2 < \<bar>a - b\<bar> \<and> \<bar>a - b\<bar> \<le> 1 \<Longrightarrow> hook_score fl p y = 10"
    by (simp only: d_def)
  have "1 < d \<Longrightarrow> hook_score fl p y = 0" using eqd by auto
  then show "1 < \<bar>a - b\<bar> \<Longrightarrow> hook_score fl p y = 0" by (simp only: d_def)
  have "d = 2 \<Longrightarrow> hook_score fl p y = 0" using eqd by auto
  then show "\<bar>a - b\<bar> = 2 \<Longrightarrow> hook_score fl p y = 0" by (simp only: d_def)
next
  assume "\<not> notna (Hook_Size p) \<or> \<not> notna (Needle_Hook_Size y)
            \<or> float fl (str_strip (Hook_Size p)) = None
            \<or> float fl (str_strip (Needle_Hook_Size y)) = None"
  then show "hook_score fl p y = 0"
    by (auto simp add: hook_score_def Let_def split: option.splits)
qed

text \<open>A hook given as the text \<^verbatim>\<open>" 4 "\<close> against 4.5 scores 15; the text \<^verbatim>\<open>4mm\<close> scores 0.\<close>

theorem C7_hook_score_witness:
  "hook_score float_digits (example_pattern\<lparr>Hook_Size := Text '' 4 ''\<rparr>)
        (example_yarn\<lparr>Needle_Hook_Size := Number (9 / 2)\<rparr>) = 15
   \<and> hook_score float_digits (example_pattern\<lparr>Hook_Size := Text ''4mm''\<rparr>) example_yarn = 0"
proof -
  let ?p = "example_pattern\<lparr>Hook_Size := Text '' 4 ''\<rparr>"
  let ?y = "example_yarn\<lparr>Needle_Hook_Size := Number (9 / 2)\<rparr>"
  let ?q = "example_pattern\<lparr>Hook_Size := Text ''4mm''\<rparr>"
  have h: "notna (Hook_Size ?p) \<and> notna (Needle_Hook_Size ?y)
            \<and> float float_digits (str_strip (Hook_Size ?p)) = Some 4
            \<and> float float_digits (str_strip (Needle_Hook_Size ?y)) = Some (9 / 2)"
    by code_simp
  have d: "0 < \<bar>4 - 9 / 2 :: rat\<bar> \<and> \<bar>4 - 9 / 2 :: rat\<bar> \<le> 1 / 2" by simp
  have g: "float float_digits (str_strip (Hook_Size ?q)) = None" by code_simp
  from C7_hook_score [of ?p ?y float_digits 4 "9 / 2"] h d
  have "hook_score float_digits ?p ?y = 15" by blast
  moreover from C7_hook_score [of ?q example_yarn float_digits] g
  have "hook_score float_digits ?q example_yarn = 0" by blast
  ultimately show ?thesis by simp
qed

text \<open>
  C8. The comfort range of a yarn. With coolFiber = cotton + linen + bamboo and
  warmFiber = wool + mohair/alpaca, the first test that holds decides: warmFiber over 50
  gives the Warm range [-10, 15] with ideal 5; else coolFiber over 50 gives the Cool range
  [15, 35] with ideal 22; else acrylic over 70 gives the All-season range [5, 20] with ideal
  12; else the Blend range [5, 25] with ideal 15. A yarn of 70 percent wool and 10 percent
  mohair has the Warm range.

  The statement is in the sums and comparisons of the rationals. Its first part is for a
  yarn whose percentages are the numbers \<open>c\<close>, \<open>l\<close>, \<open>b\<close>, \<open>a\<close>, \<open>w\<close>, \<open>m\<close>, a column
  that the row lacks counting as 0. Its second part is for every yarn: a test holds when
  its percentages are numbers whose sum is over the threshold, so a NaN among the summands
  makes the test fail.
\<close>

theorem C8_get_yarn_temp_range:
  "((Cotton y = Some (Num c) \<or> (Cotton y = None \<and> c = 0))
    \<and> (Linen y = Some (Num l) \<or> (Linen y = None \<and> l = 0))
    \<and> (Bamboo_Viscouse y = Some (Num b) \<or> (Bamboo_Viscouse y = None \<and> b = 0))
    \<and> (Acrylic y = Some (Num a) \<or> (Acrylic y = None \<and> a = 0))
    \<and> (Wool y = Some (Num w) \<or> (Wool y = None \<and> w = 0))
    \<and> (Mohair_Alpaca y = Some (Num m) \<or> (Mohair_Alpaca y = None \<and> m = 0))
    \<longrightarrow> get_yarn_temp_range y =
         (if w + m > 50 then
            \<lparr>min_temp = -10, max_temp = 15, ideal_temp = 5, type_label = ''Warm (Wool/Alpaca)''\<rparr>
          else if c + l + b > 50 then
            \<lparr>min_temp = 15, max_temp = 35, ideal_temp = 22, type_label = ''Cool (Cotton/Linen)''\<rparr>
          else if a > 70 then
            \<lparr>min_temp = 5, max_temp = 20, ideal_temp = 12, type_label = ''All-season (Acrylic)''\<rparr>
          else
            \<lparr>min_temp = 5, max_temp = 25, ideal_temp = 15, type_label = ''Blend''\<rparr>))
   \<and> get_yarn_temp_range y =
     (if \<exists>w m. (Wool y = Some (Num w) \<or> (Wool y = None \<and> w = 0))
              \<and> (Mohair_Alpaca y = Some (Num m) \<or> (Mohair_Alpaca y = None \<and> m = 0))
              \<and> w + m > 50
      then \<lparr>min_temp = -10, max_temp = 15, ideal_temp = 5, type_label = ''Warm (Wool/Alpaca)''\<rparr>
      else if \<exists>c l b. (Cotton y = Some (Num c) \<or> (Cotton y = None \<and> c = 0))
              \<and> (Linen y = Some (Num l) \<or> (Linen y = None \<and> l = 0))
              \<and> (Bamboo_Viscouse y = Some (Num b) \<or> (Bamboo_Viscouse y = None \<and> b = 0))
              \<and> c + l + b > 50
      then \<lparr>min_temp = 15, max_temp = 35, ideal_temp = 22, type_label = ''Cool (Cotton/Linen)''\<rparr>
      else if \<exists>a. (Acrylic y = Some (Num a) \<or> (Acrylic y = None \<and> a = 0)) \<and> a > 70
      then \<lparr>min_temp = 5, max_temp = 20, ideal_temp = 12, type_label = ''All-season (Acrylic)''\<rparr>
      else \<lparr>min_temp = 5, max_temp = 25, ideal_temp = 15, type_label = ''Blend''\<rparr>)
   \<and> (Wool y = Some (Num 70) \<and> Mohair_Alpaca y = Some (Num 10) \<longrightarrow>
        get_yarn_temp_range y =
          \<lparr>min_temp = -10, max_temp = 15, ideal_temp = 5, type_label = ''Warm (Wool/Alpaca)''\<rparr>)"
proof (intro conjI impI)
  assume h: "(Cotton y = Some (Num c) \<or> (Cotton y = None \<and> c = 0))
    \<and> (Linen y = Some (Num l) \<or> (Linen y = None \<and> l = 0))
    \<and> (Bamboo_Viscouse y = Some (Num b) \<or> (Bamboo_Viscouse y = None \<and> b = 0))
    \<and> (Acrylic y = Some (Num a) \<or> (Acrylic y = None \<and> a = 0))
    \<and> (Wool y = Some (Num w) \<or> (Wool y = None \<and> w = 0))
    \<and> (Mohair_Alpaca y = Some (Num m) \<or> (Mohair_Alpaca y = None \<and> m = 0))"
  then have g: "get (Cotton y) 0 = Num c" "get (Linen y) 0 = Num l"
    "get (Bamboo_Viscouse y) 0 = Num b" "get (Acrylic y) 0 = Num a"
    "get (Wool y) 0 = Num w" "get (Mohair_Alpaca y) 0 = Num m"
    by auto
  show "get_yarn_temp_range y =
         (if w + m > 50 then
            \<lparr>min_temp = -10, max_temp = 15, ideal_temp = 5, type_label = ''Warm (Wool/Alpaca)''\<rparr>
          else if c + l + b > 50 then
            \<lparr>min_temp = 15, max_temp = 35, ideal_temp = 22, type_label = ''Cool (Cotton/Linen)''\<rparr>
          else if a > 70 then
            \<lparr>min_temp = 5, max_temp = 20, ideal_temp = 12, type_label = ''All-season (Acrylic)''\<rparr>
          else
            \<lparr>min_temp = 5, max_temp = 25, ideal_temp = 15, type_label = ''Blend''\<rparr>)"
    by (simp add: get_yarn_temp_range_def Let_def g)
next
  show "get_yarn_temp_range y =
     (if \<exists>w m. (Wool y = Some (Num w) \<or> (Wool y = None \<and> w = 0))
              \<and> (Mohair_Alpaca y = Some (Num m) \<or> (Mohair_Alpaca y = None \<and> m = 0))
              \<and> w + m > 50
      then \<lparr>min_temp = -10, max_temp = 15, ideal_temp = 5, type_label = ''Warm (Wool/Alpaca)''\<rparr>
      else if \<exists>c l b. (Cotton y = Some (Num c) \<or> (Cotton y = None \<and> c = 0))
              \<and> (Linen y = Some (Num l) \<or> (Linen y = None \<and> l = 0))
              \<and> (Bamboo_Viscouse y = Some (Num b) \<or> (Bamboo_Viscouse y = None \<and> b = 0))
              \<and> c + l + b > 50
      then \<lparr>min_temp = 15, max_temp = 35, ideal_temp = 22, type_label = ''Cool (Cotton/Linen)''\<rparr>
      else if \<exists>a. (Acrylic y = Some (Num a) \<or> (Acrylic y = None \<and> a = 0)) \<and> a > 70
      then \<lparr>min_temp = 5, max_temp = 20, ideal_temp = 12, type_label = ''All-season (Acrylic)''\<rparr>
      else \<lparr>min_temp = 5, max_temp = 25, ideal_temp = 15, type_label = ''Blend''\<rparr>)"
    by (rule get_yarn_temp_range_sums)
next
  assume "Wool y = Some (Num 70) \<and> Mohair_Alpaca y = Some (Num 10)"
  then show "get_yarn_temp_range y =
          \<lparr>min_temp = -10, max_temp = 15, ideal_temp = 5, type_label = ''Warm (Wool/Alpaca)''\<rparr>"
    by (simp add: get_yarn_temp_range_def Let_def)
qed

text \<open>
  Wool 30 with mohair 25 is Warm and cotton 20 with linen 20 and bamboo 15 is Cool, by
  their sums alone; wool 25 with mohair 25, cotton 25 with linen 25 and acrylic 70 sit on
  the thresholds and give Blend; wool 70 with mohair 10 is Warm.
\<close>

theorem C8_get_yarn_temp_range_witness:
  "get_yarn_temp_range mohair_blend_yarn =
     \<lparr>min_temp = -10, max_temp = 15, ideal_temp = 5, type_label = ''Warm (Wool/Alpaca)''\<rparr>
   \<and> get_yarn_temp_range summer_blend_yarn =
     \<lparr>min_temp = 15, max_temp = 35, ideal_temp = 22, type_label = ''Cool (Cotton/Linen)''\<rparr>
   \<and> get_yarn_temp_range threshold_yarn =
     \<lparr>min_temp = 5, max_temp = 25, ideal_temp = 15, type_label = ''Blend''\<rparr>
   \<and> get_yarn_temp_range wool_yarn =
     \<lparr>min_temp = -10, max_temp = 15, ideal_temp = 5, type_label = ''Warm (Wool/Alpaca)''\<rparr>"
proof -
  have a: "(Cotton mohair_blend_yarn = Some (Num 20) \<or> (Cotton mohair_blend_yarn = None \<and> (20::rat) = 0))
    \<and> (Linen mohair_blend_yarn = Some (Num 0) \<or> (Linen mohair_blend_yarn = None \<and> (0::rat) = 0))
    \<and> (Bamboo_Viscouse mohair_blend_yarn = Some (Num 0)
         \<or> (Bamboo_Viscouse mohair_blend_yarn = None \<and> (0::rat) = 0))
    \<and> (Acrylic mohair_blend_yarn = Some (Num 25) \<or> (Acrylic mohair_blend_yarn = None \<and> (25::rat) = 0))
    \<and> (Wool mohair_blend_yarn = Some (Num 30) \<or> (Wool mohair_blend_yarn = None \<and> (30::rat) = 0))
    \<and> (Mohair_Alpaca mohair_blend_yarn = Some (Num 25)
         \<or> (Mohair_Alpaca mohair_blend_yarn = None \<and> (25::rat) = 0))"
    by (simp add: mohair_blend_yarn_def example_yarn_def)
  have b: "(Cotton summer_blend_yarn = Some (Num 20) \<or> (Cotton summer_blend_yarn = None \<and> (20::rat) = 0))
    \<and> (Linen summer_blend_yarn = Some (Num 20) \<or> (Linen summer_blend_yarn = None \<and> (20::rat) = 0))
    \<and> (Bamboo_Viscouse summer_blend_yarn = Some (Num 15)
         \<or> (Bamboo_Viscouse summer_blend_yarn = None \<and> (15::rat) = 0))
    \<and> (Acrylic summer_blend_yarn = Some (Num 45) \<or> (Acrylic summer_blend_yarn = None \<and> (45::rat) = 0))
    \<and> (Wool summer_blend_yarn = Some (Num 0) \<or> (Wool summer_blend_yarn = None \<and> (0::rat) = 0))
    \<and> (Mohair_Alpaca summer_blend_yarn = Some (Num 0)
         \<or> (Mohair_Alpaca summer_blend_yarn = None \<and> (0::rat) = 0))"
    by (simp add: summer_blend_yarn_def example_yarn_def)
  have c: "(Cotton threshold_yarn = Some (Num 25) \<or> (Cotton threshold_yarn = None \<and> (25::rat) = 0))
    \<and> (Linen threshold_yarn = Some (Num 25) \<or> (Linen threshold_yarn = None \<and> (25::rat) = 0))
    \<and> (Bamboo_Viscouse threshold_yarn = Some (Num 0)
         \<or> (Bamboo_Viscouse threshold_yarn = None \<and> (0::rat) = 0))
    \<and> (Acrylic threshold_yarn = Some (Num 70) \<or> (Acrylic threshold_yarn = None \<and> (70::rat) = 0))
    \<and> (Wool threshold_yarn = Some (Num 25) \<or> (Wool threshold_yarn = None \<and> (25::rat) = 0))
    \<and> (Mohair_Alpaca threshold_yarn = Some (Num 25)
         \<or> (Mohair_Alpaca threshold_yarn = None \<and> (25::rat) = 0))"
    by (simp add: threshold_yarn_def example_yarn_def)
  have d: "Wool wool_yarn = Some (Num 70) \<and> Mohair_Alpaca wool_yarn = Some (Num 10)"
    by (simp add: wool_yarn_def)
  from C8_get_yarn_temp_range [THEN conjunct1, THEN mp, OF a]
  have 1: "get_yarn_temp_range mohair_blend_yarn =
     \<lparr>min_temp = -10, max_temp = 15, ideal_temp = 5, type_label = ''Warm (Wool/Alpaca)''\<rparr>"
    by simp
  from C8_get_yarn_temp_range [THEN conjunct1, THEN mp, OF b]
  have 2: "get_yarn_temp_range summer_blend_yarn =
     \<lparr>min_temp = 15, max_temp = 35, ideal_temp = 22, type_label = ''Cool (Cotton/Linen)''\<rparr>"
    by simp
  from C8_get_yarn_temp_range [THEN conjunct1, THEN mp, OF c]
  have 3: "get_yarn_temp_range threshold_yarn =
     \<lparr>min_temp = 5, max_temp = 25, ideal_temp = 15, type_label = ''Blend''\<rparr>"
    by simp
  from C8_get_yarn_temp_range [THEN conjunct2, THEN conjunct2, THEN mp, OF d]
  have 4: "get_yarn_temp_range wool_yarn =
     \<lparr>min_temp = -10, max_temp = 15, ideal_temp = 5, type_label = ''Warm (Wool/Alpaca)''\<rparr>" .
  from 1 2 3 4 show ?thesis by blast
qed

text \<open>
  C10. Deriving the comfort range is total: for every yarn row it returns one of the four
  fixed descriptors (Warm, Cool, All-season, Blend) and raises nothing. When every fibre
  field is NaN or absent, no threshold test holds and the Blend descriptor with minimum 5,
  maximum 25 and ideal 15 is returned.
\<close>

theorem C10_get_yarn_temp_range_total:
  "get_yarn_temp_range y \<in>
     {\<lparr>min_temp = -10, max_temp = 15, ideal_temp = 5, type_label = ''Warm (Wool/Alpaca)''\<rparr>,
      \<lparr>min_temp = 15, max_temp = 35, ideal_temp = 22, type_label = ''Cool (Cotton/Linen)''\<rparr>,
      \<lparr>min_temp = 5, max_temp = 20, ideal_temp = 12, type_label = ''All-season (Acrylic)''\<rparr>,
      \<lparr>min_temp = 5, max_temp = 25, ideal_temp = 15, type_label = ''Blend''\<rparr>}
   \<and> ((\<forall>f \<in> set [Cotton y, Linen y, Bamboo_Viscouse y, Acrylic y, Wool y, Mohair_Alpaca y].
          f = Some NaN \<or> f = None)
        \<longrightarrow> get_yarn_temp_range y =
              \<lparr>min_temp = 5, max_temp = 25, ideal_temp = 15, type_label = ''Blend''\<rparr>)"
proof (intro conjI impI)
  show "get_yarn_temp_range y \<in>
     {\<lparr>min_temp = -10, max_temp = 15, ideal_temp = 5, type_label = ''Warm (Wool/Alpaca)''\<rparr>,
      \<lparr>min_temp = 15, max_temp = 35, ideal_temp = 22, type_label = ''Cool (Cotton/Linen)''\<rparr>,
      \<lparr>min_temp = 5, max_temp = 20, ideal_temp = 12, type_label = ''All-season (Acrylic)''\<rparr>,
      \<lparr>min_temp = 5, max_temp = 25, ideal_temp = 15, type_label = ''Blend''\<rparr>}"
    by (simp add: get_yarn_temp_range_def Let_def)
next
  assume h: "\<forall>f \<in> set [Cotton y, Linen y, Bamboo_Viscouse y, Acrylic y, Wool y, Mohair_Alpaca y].
          f = Some NaN \<or> f = None"
  have nan_or_zero: "\<And>f. f = Some NaN \<or> f = None \<Longrightarrow> get f 0 = NaN \<or> get f 0 = Num 0"
    by auto
  from h have c: "get (Cotton y) 0 = NaN \<or> get (Cotton y) 0 = Num 0"
    and l: "get (Linen y) 0 = NaN \<or> get (Linen y) 0 = Num 0"
    and b: "get (Bamboo_Viscouse y) 0 = NaN \<or> get (Bamboo_Viscouse y) 0 = Num 0"
    and a: "get (Acrylic y) 0 = NaN \<or> get (Acrylic y) 0 = Num 0"
    and w: "get (Wool y) 0 = NaN \<or> get (Wool y) 0 = Num 0"
    and m: "get (Mohair_Alpaca y) 0 = NaN \<or> get (Mohair_Alpaca y) 0 = Num 0"
    by (simp_all add: nan_or_zero)
  have warm: "\<not> num_gt (num_add (get (Wool y) 0) (get (Mohair_Alpaca y) 0)) 50"
    using w m by auto
  have cool: "\<not> num_gt (num_add (num_add (get (Cotton y) 0) (get (Linen y) 0))
                  (get (Bamboo_Viscouse y) 0)) 50"
    using c l b by auto
  have acr: "\<not> num_gt (get (Acrylic y) 0) 70"
    using a by auto
  show "get_yarn_temp_range y =
      \<lparr>min_temp = 5, max_temp = 25, ideal_temp = 15, type_label = ''Blend''\<rparr>"
    using warm cool acr by (simp add: get_yarn_temp_range_def Let_def)
qed


text \<open>A yarn whose fibre fields are NaN or absent.\<close>

theorem C10_get_yarn_temp_range_total_witness:
  "get_yarn_temp_range blank_fibre_yarn =
     \<lparr>min_temp = 5, max_temp = 25, ideal_temp = 15, type_label = ''Blend''\<rparr>"
proof -
  have "\<forall>f \<in> set [Cotton blank_fibre_yarn, Linen blank_fibre_yarn,
                    Bamboo_Viscouse blank_fibre_yarn, Acrylic blank_fibre_yarn,
                    Wool blank_fibre_yarn, Mohair_Alpaca blank_fibre_yarn].
          f = Some NaN \<or> f = None"
    by (simp add: blank_fibre_yarn_def)
  with C10_get_yarn_temp_range_total [of blank_fibre_yarn] show ?thesis by blast
qed

text \<open>
  C5. The blended score of the recommendation loop. For every yarn of the catalogue and
  every temperature \<open>t\<close>, the total is 0.7 times the base composite score plus the
  temperature score, added without renormalising. The temperature score is
  \<open>30 - 1.5 \<times> \<bar>t - ideal\<bar>\<close> floored at 0 when \<open>t\<close> lies in the yarn's derived range
  [min, max], and \<open>30 - 3 \<times>\<close> (the distance from \<open>t\<close> to the nearer bound) floored at 0
  when it lies outside. The loop yields these entries whenever the rows have the fibre
  columns that the base score reads.
\<close>

theorem C5_blended_score:
  "((\<forall>y \<in> set yarn_df. Cotton y \<noteq> None \<and> Acrylic y \<noteq> None \<and> Wool y \<noteq> None) \<longrightarrow>
      (\<exists>ms. yarn_matches fl p t yarn_df = Inr ms))
   \<and> (yarn_matches fl p t yarn_df = Inr ms \<longrightarrow>
        length ms = length yarn_df
      \<and> (\<forall>i < length yarn_df.
            calculate_match_score fl p (yarn_df ! i) = Inr (base_score (ms ! i))
          \<and> total_score (ms ! i) = (7 / 10) * base_score (ms ! i) + temp_score (ms ! i)
          \<and> temp_score (ms ! i) =
              (if min_temp (get_yarn_temp_range (yarn_df ! i)) \<le> t
                  \<and> t \<le> max_temp (get_yarn_temp_range (yarn_df ! i))
               then max 0 (30 - (3 / 2) * \<bar>t - ideal_temp (get_yarn_temp_range (yarn_df ! i))\<bar>)
               else max 0 (30 - 3 * min \<bar>t - min_temp (get_yarn_temp_range (yarn_df ! i))\<bar>
                                        \<bar>t - max_temp (get_yarn_temp_range (yarn_df ! i))\<bar>))))"
proof (intro conjI impI)
  assume "\<forall>y \<in> set yarn_df. Cotton y \<noteq> None \<and> Acrylic y \<noteq> None \<and> Wool y \<noteq> None"
  then show "\<exists>ms. yarn_matches fl p t yarn_df = Inr ms" by (rule yarn_matches_total)
next
  assume r: "yarn_matches fl p t yarn_df = Inr ms"
  then have all2: "list_all2 (\<lambda>y m. yarn_match_entry fl p t y = Inr m) yarn_df ms"
    by (rule yarn_matches_all2)
  then show "length ms = length yarn_df" by (simp add: list_all2_lengthD)
  have "\<forall>i < length yarn_df. yarn_match_entry fl p t (yarn_df ! i) = Inr (ms ! i)"
    using all2 by (simp add: list_all2_conv_all_nth)
  then show "\<forall>i < length yarn_df.
            calculate_match_score fl p (yarn_df ! i) = Inr (base_score (ms ! i))
          \<and> total_score (ms ! i) = (7 / 10) * base_score (ms ! i) + temp_score (ms ! i)
          \<and> temp_score (ms ! i) =
              (if min_temp (get_yarn_temp_range (yarn_df ! i)) \<le> t
                  \<and> t \<le> max_temp (get_yarn_temp_range (yarn_df ! i))
               then max 0 (30 - (3 / 2) * \<bar>t - ideal_temp (get_yarn_temp_range (yarn_df ! i))\<bar>)
               else max 0 (30 - 3 * min \<bar>t - min_temp (get_yarn_temp_range (yarn_df ! i))\<bar>
                                        \<bar>t - max_temp (get_yarn_temp_range (yarn_df ! i))\<bar>))"
    using yarn_match_entry_blend temp_score_formula [OF range_ordered] by metis
qed

text \<open>The wool yarn at 5 degrees: base 78.5, temperature score 30, total 84.95.\<close>

theorem C5_blended_score_witness:
  "yarn_matches float_digits example_pattern 5 [wool_yarn] =
     Inr [\<lparr>name = ''Highland Wool'', total_score = 1699 / 20, base_score = 157 / 2,
           temp_score = 30, match_price = Number (5 / 2), match_rating = Number (9 / 2),
           match_temp_range = \<lparr>min_temp = -10, max_temp = 15, ideal_temp = 5,
                                type_label = ''Warm (Wool/Alpaca)''\<rparr>,
           match_cotton = Num 0, match_acrylic = Num 20, match_wool = Num 70,
           weight = Some ''Worsted''\<rparr>]
   \<and> (1699 / 20 :: rat) = (7 / 10) * (157 / 2) + 30"
proof -
  have h: "yarn_matches float_digits example_pattern 5 [wool_yarn] =
     Inr [\<lparr>name = ''Highland Wool'', total_score = 1699 / 20, base_score = 157 / 2,
           temp_score = 30, match_price = Number (5 / 2), match_rating = Number (9 / 2),
           match_temp_range = \<lparr>min_temp = -10, max_temp = 15, ideal_temp = 5,
                                type_label = ''Warm (Wool/Alpaca)''\<rparr>,
           match_cotton = Num 0, match_acrylic = Num 20, match_wool = Num 70,
           weight = Some ''Worsted''\<rparr>]"
    by code_simp
  have len: "0 < length [wool_yarn]" by simp
  note C5_blended_score [THEN conjunct2, THEN mp, OF h, THEN conjunct2, rule_format, OF len,
      THEN conjunct2, THEN conjunct1]
  then have a: "(1699 / 20 :: rat) = (7 / 10) * (157 / 2) + 30"
    by simp
  from h a show ?thesis by (rule conjI)
qed

text \<open>
  C6, as the claim states it, fails: the text \<^verbatim>\<open>Cotton or acrylic\<close> holds the keyword
  \<^verbatim>\<open>cotton\<close>, which comes first in the priority order, and the yarn has no cotton, yet
  the later keyword \<^verbatim>\<open>acrylic\<close> earns the 20 points.
\<close>

theorem C6_composition_score_counterexample:
  "contains ''cotton''
      (lower (str_text (Recommended_Composition
         (example_pattern\<lparr>Recommended_Composition := Some ''Cotton or acrylic''\<rparr>))))
   \<and> Cotton acrylic_yarn = Some (Num 0)
   \<and> \<not> num_gt (Num 0) 50
   \<and> composition_score
        (example_pattern\<lparr>Recommended_Composition := Some ''Cotton or acrylic''\<rparr>)
        acrylic_yarn = Inr 20"
  by code_simp

text \<open>
  C6, amended. The composition criterion looks in the lower-cased composition text for the
  keywords \<^verbatim>\<open>cotton\<close>, \<^verbatim>\<open>acrylic\<close>, \<^verbatim>\<open>wool\<close> in that order. A keyword counts when it
  occurs in the text and the yarn's percentage of that fibre exceeds 50; a keyword that
  occurs in the text without its fibre exceeding 50 does not stop the later keywords. The
  score is 20 when some keyword counts (once, however many count); otherwise 10 when the
  text contains \<^verbatim>\<open>not specified\<close>; otherwise 0. (For a yarn row that has the three
  fibre columns.)
\<close>

theorem C6_composition_score:
  assumes "Cotton y = Some c" and "Acrylic y = Some a" and "Wool y = Some w"
  shows "composition_score p y =
     Inr (if (contains ''cotton'' (lower (str_text (Recommended_Composition p))) \<and> num_gt c 50)
           \<or> (contains ''acrylic'' (lower (str_text (Recommended_Composition p))) \<and> num_gt a 50)
           \<or> (contains ''wool'' (lower (str_text (Recommended_Composition p))) \<and> num_gt w 50)
          then 20
          else if contains ''not specified'' (lower (str_text (Recommended_Composition p)))
          then 10 else 0)"
proof -
  let ?text = "lower (str_text (Recommended_Composition p))"
  define k1 where "k1 = (contains ''cotton'' ?text \<and> num_gt c 50)"
  define k2 where "k2 = (contains ''acrylic'' ?text \<and> num_gt a 50)"
  define k3 where "k3 = (contains ''wool'' ?text \<and> num_gt w 50)"
  have e1: "keyword_and_over ''cotton'' ?text (Cotton y) = Inr k1"
    by (simp only: k1_def keyword_and_over_present [OF assms(1)])
  have e2: "keyword_and_over ''acrylic'' ?text (Acrylic y) = Inr k2"
    by (simp only: k2_def keyword_and_over_present [OF assms(2)])
  have e3: "keyword_and_over ''wool'' ?text (Wool y) = Inr k3"
    by (simp only: k3_def keyword_and_over_present [OF assms(3)])
  have "composition_score p y =
      Inr (if k1 \<or> k2 \<or> k3 then 20 else if contains ''not specified'' ?text then 10 else 0)"
    unfolding composition_score_def Let_def e1 e2 e3
    by (cases k1; cases k2; cases k3; simp)
  then show ?thesis by (simp only: k1_def k2_def k3_def)
qed

text \<open>The same pattern and yarn: the keyword \<^verbatim>\<open>acrylic\<close> counts.\<close>

theorem C6_composition_score_witness:
  "composition_score
     (example_pattern\<lparr>Recommended_Composition := Some ''Cotton or acrylic''\<rparr>)
     acrylic_yarn = Inr 20"
proof -
  let ?p = "example_pattern\<lparr>Recommended_Composition := Some ''Cotton or acrylic''\<rparr>"
  have c: "Cotton acrylic_yarn = Some (Num 0)" by code_simp
  have a: "Acrylic acrylic_yarn = Some (Num 100)" by code_simp
  have w: "Wool acrylic_yarn = Some (Num 0)" by code_simp
  have k: "contains ''acrylic'' (lower (str_text (Recommended_Composition ?p))) \<and> num_gt (Num 100) 50"
    by code_simp
  show ?thesis
    by (simp only: C6_composition_score [OF c a w, of ?p] k simp_thms if_True)
qed

text \<open>
  C2 says that every criterion stays within its declared maximum, the rating within
  [0, 15] in particular, and that the base composite score lies in [0, 100]. The rating
  criterion has no clamp: a rating of 10 scores 30 of the declared 15 points and takes the
  composite score of the example yarn to 115; a rating of -5 scores -15.
\<close>

theorem C2_rating_not_clamped:
  "rating_score fl (example_yarn\<lparr>Rating := Number 10\<rparr>) = 30
   \<and> calculate_match_score fl example_pattern (example_yarn\<lparr>Rating := Number 10\<rparr>) = Inr 115
   \<and> rating_score fl (example_yarn\<lparr>Rating := Number (- 5)\<rparr>) = - 15"
  by code_simp

text \<open>
  C3 says that ranking against an empty catalogue returns an empty result. For a pattern
  of the table and the empty catalogue the ranking raises \<^verbatim>\<open>KeyError\<close>: the frame built
  from no rows has no \<^verbatim>\<open>score\<close> column to sort by.
\<close>

theorem C3_empty_catalog_raises:
  "match_yarn_to_pattern fl srt (Pattern_Name p) (p # patterns_df) [] top_n = Inl KeyError"
  by (simp add: match_yarn_to_pattern_def sort_values_def)

text \<open>
  C4, as the claim states it, fails: for a name that is not in the pattern table the ranking
  does not report the \<open>NotFound\<close> signal. What the caller receives is the \<^verbatim>\<open>IndexError\<close>
  that \<^verbatim>\<open>.iloc[0]\<close> raises on the empty selection.
\<close>

theorem C4_unknown_pattern_counterexample:
  "match_yarn_to_pattern float_digits insertion_argsort ''NO SUCH PATTERN''
      [example_pattern] [example_yarn] None = Inl IndexError
   \<and> match_yarn_to_pattern float_digits insertion_argsort ''NO SUCH PATTERN''
      [example_pattern] [example_yarn] None \<noteq> Inl NotFound"
  by code_simp

text \<open>
  C4, amended. For every pattern name that does not occur in the pattern table the ranking
  fails with \<^verbatim>\<open>IndexError\<close>, whatever the catalogue holds: no yarn is scored, so no
  exception of the scoring can take its place. The ranking raises \<^verbatim>\<open>IndexError\<close> in no
  other case, so a caller can tell the lookup miss from the other failures.
\<close>

theorem C4_unknown_pattern:
  "(pattern_name \<notin> Pattern_Name ` set patterns_df \<longrightarrow>
      match_yarn_to_pattern fl srt pattern_name patterns_df yarn_df top_n = Inl IndexError)
   \<and> (match_yarn_to_pattern fl srt pattern_name patterns_df yarn_df top_n = Inl IndexError \<longrightarrow>
      pattern_name \<notin> Pattern_Name ` set patterns_df)"
  using match_unknown match_known by blast

text \<open>An unknown name with a yarn whose scoring would raise \<^verbatim>\<open>KeyError\<close>.\<close>

theorem C4_unknown_pattern_witness:
  "match_yarn_to_pattern float_digits insertion_argsort ''NO SUCH PATTERN''
      [example_pattern] [example_yarn\<lparr>Cotton := None\<rparr>] (Some 3) = Inl IndexError"
proof -
  have "''NO SUCH PATTERN'' \<notin> Pattern_Name ` set [example_pattern]"
    by (simp add: example_pattern_def)
  with C4_unknown_pattern [of "''NO SUCH PATTERN''" "[example_pattern]" float_digits
      insertion_argsort "[example_yarn\<lparr>Cotton := None\<rparr>]" "Some 3"]
  show ?thesis by blast
qed




end
